theory Spec2Isabelle
  imports Complex_Main
begin

section \<open>Data model\<close>

text \<open>
  The booking platform keeps its state in relational tables (SQLAlchemy models under
  \<^verbatim>\<open>models/\<close>). A table is modelled as the list of its rows, a row as a record.
  Identifiers (UUIDs) are natural numbers; timestamps are integers on one time line;
  Python's unbounded \<^verbatim>\<open>int\<close> is \<^typ>\<open>int\<close>; a \<^verbatim>\<open>Numeric(10, 2)\<close> amount is
  counted in hundredths.
\<close>

type_synonym uuid = nat
type_synonym datetime = int

datatype BookingStatus = PENDING | CONFIRMED | CANCELLED | EXPIRED

datatype SeatStatus = AVAILABLE | HELD | BOOKED | BLOCKED

datatype WaitlistStatus = WL_ACTIVE | WL_NOTIFIED | WL_EXPIRED | WL_CONVERTED

datatype BookingAction = ACT_CREATED | ACT_CONFIRMED | ACT_CANCELLED | ACT_EXPIRED | ACT_MODIFIED

record Event =
  ev_id :: uuid
  event_date :: datetime
  total_capacity :: int
  available_capacity :: int
  ev_price :: int
  has_seat_selection :: bool
  version :: int
  ev_is_active :: bool

record Seat =
  seat_id :: uuid
  seat_event_id :: uuid
  seat_price :: int
  seat_status :: SeatStatus

record Booking =
  bk_id :: uuid
  bk_user_id :: uuid
  bk_event_id :: uuid
  quantity :: int
  total_amount :: int
  bk_status :: BookingStatus
  expires_at :: "datetime option"

record SeatBooking =
  sb_booking_id :: uuid
  sb_seat_id :: uuid

record BookingHistory =
  bh_booking_id :: uuid
  bh_action :: BookingAction

record Waitlist =
  wl_id :: uuid
  wl_user_id :: uuid
  wl_event_id :: uuid
  requested_quantity :: int
  wl_position :: int
  wl_status :: WaitlistStatus
  wl_updated_at :: datetime

record db =
  events :: "Event list"
  seats :: "Seat list"
  bookings :: "Booking list"
  seat_bookings :: "SeatBooking list"
  booking_history :: "BookingHistory list"
  waitlist :: "Waitlist list"

text \<open>
  Exceptions are values. \<open>TypeError\<close> and \<open>NameError\<close> are Python's own: several
  \<^verbatim>\<open>raise\<close> statements of \<^verbatim>\<open>booking_service.py\<close> build an exception of
  \<^verbatim>\<open>utils/exceptions.py\<close> with a single message string although its
  \<^verbatim>\<open>__init__\<close> requires more positional arguments (which raises \<open>TypeError\<close> before
  anything of the intended class exists), or name \<^verbatim>\<open>BookingError\<close>, which no module
  defines or imports (which raises \<open>NameError\<close>). \<open>InsufficientCapacityError\<close> and
  \<open>InvalidBookingStateError\<close> are the classes those statements name.
\<close>

datatype sql_statement =
    INSERT_bookings | INSERT_seat_bookings | UPDATE_events | INSERT_waitlist | UPDATE_waitlist

datatype error =
    EventNotFoundError
  | BookingNotFoundError
  | BookingExpiredError
  | InsufficientCapacityError
  | InvalidBookingStateError
  | ConcurrencyError
  | IntegrityError sql_statement
  | MultipleResultsFound
  | InvalidRequestError
  | TypeError
  | NameError
  | WaitlistError
  | WaitlistNotFoundError
  | AlreadyOnWaitlistError
  | EventNotSoldOutError

section \<open>The relational store\<close>

text \<open>
  \<^verbatim>\<open>UPDATE t SET ... WHERE cond\<close> rewrites every row that satisfies \<open>cond\<close>;
  \<^verbatim>\<open>result.rowcount\<close> is the number of such rows; \<^verbatim>\<open>scalar_one_or_none()\<close> gives
  the only row of a result, \<^verbatim>\<open>None\<close> for an empty one, and raises on several.
\<close>

definition sql_update :: "('r \<Rightarrow> bool) \<Rightarrow> ('r \<Rightarrow> 'r) \<Rightarrow> 'r list \<Rightarrow> 'r list" where
  "sql_update cond f rows = map (\<lambda>r. if cond r then f r else r) rows"

definition rowcount :: "('r \<Rightarrow> bool) \<Rightarrow> 'r list \<Rightarrow> nat" where
  "rowcount cond rows = length (filter cond rows)"

definition scalar_one_or_none :: "'r list \<Rightarrow> error + 'r option" where
  "scalar_one_or_none rows =
     (case rows of [] \<Rightarrow> Inr None | [r] \<Rightarrow> Inr (Some r) | _ \<Rightarrow> Inl MultipleResultsFound)"

definition and_then :: "error + 'a \<Rightarrow> ('a \<Rightarrow> error + 'b) \<Rightarrow> error + 'b" where
  "and_then m f = (case m of Inl e \<Rightarrow> Inl e | Inr x \<Rightarrow> f x)"

text \<open>The \<^verbatim>\<open>CheckConstraint\<close>s of \<^verbatim>\<open>Event.__table_args__\<close>,
  \<^verbatim>\<open>Booking.__table_args__\<close> and \<^verbatim>\<open>Waitlist.__table_args__\<close>: the database
  refuses a statement that writes a row violating them.\<close>

definition event_checks :: "Event \<Rightarrow> bool" where
  "event_checks e \<longleftrightarrow>
     total_capacity e > 0 \<and> available_capacity e \<ge> 0 \<and>
     available_capacity e \<le> total_capacity e \<and> ev_price e \<ge> 0 \<and> version e > 0"

definition booking_checks :: "Booking \<Rightarrow> bool" where
  "booking_checks b \<longleftrightarrow> quantity b > 0 \<and> total_amount b \<ge> 0"

definition waitlist_checks :: "Waitlist \<Rightarrow> bool" where
  "waitlist_checks w \<longleftrightarrow> requested_quantity w > 0 \<and> wl_position w > 0"

definition update_events :: "(Event \<Rightarrow> bool) \<Rightarrow> (Event \<Rightarrow> Event) \<Rightarrow> db \<Rightarrow> error + db" where
  "update_events cond f d =
     (if list_all event_checks (map f (filter cond (events d)))
      then Inr (d\<lparr>events := sql_update cond f (events d)\<rparr>)
      else Inl (IntegrityError UPDATE_events))"

definition update_waitlist :: "(Waitlist \<Rightarrow> bool) \<Rightarrow> (Waitlist \<Rightarrow> Waitlist) \<Rightarrow> db \<Rightarrow> error + db" where
  "update_waitlist cond f d =
     (if list_all waitlist_checks (map f (filter cond (waitlist d)))
      then Inr (d\<lparr>waitlist := sql_update cond f (waitlist d)\<rparr>)
      else Inl (IntegrityError UPDATE_waitlist))"

section \<open>Configuration and time\<close>

text \<open>\<^verbatim>\<open>config.py\<close>: the settings the services read (defaults 15, 10 and 24).
  Timestamps count microseconds.\<close>

record settings =
  booking_hold_timeout_minutes :: int
  max_booking_quantity :: int
  waitlist_notification_timeout_hours :: int

definition minutes :: "int \<Rightarrow> int" where
  "minutes m = m * 60000000"

definition hours :: "int \<Rightarrow> int" where
  "hours h = h * 3600000000"

section \<open>Booking service\<close>

subsection \<open>Helpers of \<^verbatim>\<open>BookingService\<close>\<close>

definition get_event_with_lock :: "uuid \<Rightarrow> db \<Rightarrow> error + Event" where
  "get_event_with_lock event_id d =
     and_then (scalar_one_or_none (filter (\<lambda>e. ev_id e = event_id) (events d)))
       (\<lambda>found. case found of
           None \<Rightarrow> Inl EventNotFoundError
         | Some event \<Rightarrow> if \<not> ev_is_active event then Inl NameError else Inr event)"

text \<open>\<^verbatim>\<open>_validate_seat_availability\<close>: the failure is written
  \<^verbatim>\<open>raise InsufficientCapacityError(f"Seats not available: ...")\<close>, one argument for
  \<^verbatim>\<open>__init__(self, requested, available, ...)\<close>, hence \<open>TypeError\<close>.\<close>

definition validate_seat_availability :: "uuid list \<Rightarrow> db \<Rightarrow> error + unit" where
  "validate_seat_availability seat_ids d =
     (let available_seats =
            filter (\<lambda>s. seat_id s \<in> set seat_ids \<and> seat_status s = AVAILABLE) (seats d)
      in if length available_seats \<noteq> length seat_ids then Inl TypeError else Inr ())"

text \<open>\<^verbatim>\<open>_validate_booking_request\<close>. \<^verbatim>\<open>seat_ids\<close> is an optional list tested by
  truthiness, so \<^verbatim>\<open>None\<close> and the empty list are both \<open>[]\<close> here. Every
  \<^verbatim>\<open>raise BookingError(...)\<close> is a \<open>NameError\<close>.\<close>

definition validate_booking_request ::
    "settings \<Rightarrow> datetime \<Rightarrow> Event \<Rightarrow> int \<Rightarrow> uuid list \<Rightarrow> db \<Rightarrow> error + unit" where
  "validate_booking_request cfg now event qty seat_ids d =
     (if qty \<le> 0 then Inl NameError
      else if qty > max_booking_quantity cfg then Inl NameError
      else if event_date event < now then Inl NameError
      else if seat_ids \<noteq> [] then
        (if int (length seat_ids) \<noteq> qty then Inl NameError
         else if \<not> has_seat_selection event then Inl NameError
         else validate_seat_availability seat_ids d)
      else if available_capacity event < qty then Inl TypeError
      else Inr ())"

definition calculate_total_amount :: "Event \<Rightarrow> int \<Rightarrow> uuid list \<Rightarrow> db \<Rightarrow> int" where
  "calculate_total_amount event qty seat_ids d =
     (if seat_ids \<noteq> []
      then sum_list (map seat_price (filter (\<lambda>s. seat_id s \<in> set seat_ids) (seats d)))
      else ev_price event * qty)"

text \<open>\<^verbatim>\<open>_reserve_specific_seats\<close>: the seats of the list that are AVAILABLE become
  HELD and one \<^verbatim>\<open>SeatBooking\<close> row per listed seat is added; the unique constraint
  on (booking, seat) refuses a repeated pair.\<close>

definition reserve_specific_seats :: "Booking \<Rightarrow> uuid list \<Rightarrow> db \<Rightarrow> error + db" where
  "reserve_specific_seats booking seat_ids d =
     (let new_rows = map (\<lambda>sid. \<lparr>sb_booking_id = bk_id booking, sb_seat_id = sid\<rparr>) seat_ids
      in if distinct seat_ids \<and> list_all (\<lambda>r. r \<notin> set (seat_bookings d)) new_rows
         then Inr (d\<lparr>seats := sql_update
                         (\<lambda>s. seat_id s \<in> set seat_ids \<and> seat_status s = AVAILABLE)
                         (\<lambda>s. s\<lparr>seat_status := HELD\<rparr>) (seats d),
                      seat_bookings := seat_bookings d @ new_rows\<rparr>)
         else Inl (IntegrityError INSERT_seat_bookings))"

text \<open>\<^verbatim>\<open>_update_event_capacity(event, quantity)\<close>. \<open>event\<close> is the row as the
  caller read it. When no row matches, \<^verbatim>\<open>session.refresh(event)\<close> rereads the row
  (and fails when it is gone); then
  \<^verbatim>\<open>raise InsufficientCapacityError("Insufficient capacity")\<close> passes one argument to
  \<^verbatim>\<open>__init__(self, requested, available, ...)\<close>, which is a \<open>TypeError\<close>, while
  \<^verbatim>\<open>ConcurrencyError(message)\<close> is well-formed.\<close>

definition update_event_capacity :: "Event \<Rightarrow> int \<Rightarrow> db \<Rightarrow> error + db" where
  "update_event_capacity event qty d =
     (let cond = (\<lambda>r. ev_id r = ev_id event \<and> version r = version event \<and>
                       available_capacity r \<ge> qty)
      in if rowcount cond (events d) = 0
         then and_then (scalar_one_or_none (filter (\<lambda>e. ev_id e = ev_id event) (events d)))
                (\<lambda>found. case found of
                    None \<Rightarrow> Inl InvalidRequestError
                  | Some refreshed \<Rightarrow>
                      if available_capacity refreshed < qty then Inl TypeError
                      else Inl ConcurrencyError)
         else update_events cond
                (\<lambda>r. r\<lparr>available_capacity := available_capacity r - qty,
                        version := version r + 1\<rparr>) d)"

definition get_booking_with_relations :: "uuid \<Rightarrow> db \<Rightarrow> error + Booking" where
  "get_booking_with_relations booking_id d =
     and_then (scalar_one_or_none (filter (\<lambda>b. bk_id b = booking_id) (bookings d)))
       (\<lambda>found. case found of None \<Rightarrow> Inl BookingNotFoundError | Some booking \<Rightarrow> Inr booking)"

text \<open>\<^verbatim>\<open>Booking.is_expired\<close> and \<^verbatim>\<open>Booking.seat_bookings\<close> (the relationship:
  the rows of \<^verbatim>\<open>seat_bookings\<close> that carry the booking's id).\<close>

definition is_expired :: "datetime \<Rightarrow> Booking \<Rightarrow> bool" where
  "is_expired now booking = (case expires_at booking of None \<Rightarrow> False | Some t \<Rightarrow> now > t)"

definition seat_bookings_of :: "Booking \<Rightarrow> db \<Rightarrow> SeatBooking list" where
  "seat_bookings_of booking d = filter (\<lambda>sb. sb_booking_id sb = bk_id booking) (seat_bookings d)"

text \<open>\<^verbatim>\<open>InvalidBookingStateError(message)\<close> lacks two required arguments
  (\<open>TypeError\<close>); \<^verbatim>\<open>BookingExpiredError(message)\<close> is well-formed.\<close>

definition validate_booking_confirmation :: "datetime \<Rightarrow> Booking \<Rightarrow> error + unit" where
  "validate_booking_confirmation now booking =
     (if bk_status booking \<noteq> PENDING then Inl TypeError
      else if is_expired now booking then Inl BookingExpiredError
      else Inr ())"

definition validate_booking_cancellation :: "Booking \<Rightarrow> error + unit" where
  "validate_booking_cancellation booking =
     (if bk_status booking \<notin> {PENDING, CONFIRMED} then Inl TypeError else Inr ())"

definition release_booking_capacity :: "Booking \<Rightarrow> db \<Rightarrow> error + db" where
  "release_booking_capacity booking d =
     (if seat_bookings_of booking d \<noteq> []
      then (let seat_ids = map sb_seat_id (seat_bookings_of booking d)
            in Inr (d\<lparr>seats := sql_update (\<lambda>s. seat_id s \<in> set seat_ids)
                                 (\<lambda>s. s\<lparr>seat_status := AVAILABLE\<rparr>) (seats d)\<rparr>))
      else update_events (\<lambda>e. ev_id e = bk_event_id booking)
             (\<lambda>e. e\<lparr>available_capacity := available_capacity e + quantity booking,
                     version := version e + 1\<rparr>) d)"

definition create_booking_history :: "uuid \<Rightarrow> BookingAction \<Rightarrow> db \<Rightarrow> db" where
  "create_booking_history booking_id action d =
     d\<lparr>booking_history := booking_history d @ [\<lparr>bh_booking_id = booking_id, bh_action = action\<rparr>]\<rparr>"

text \<open>Writing the changed attributes of a loaded booking back at commit.\<close>

definition save_booking :: "Booking \<Rightarrow> db \<Rightarrow> db" where
  "save_booking booking d =
     d\<lparr>bookings := sql_update (\<lambda>r. bk_id r = bk_id booking) (\<lambda>_. booking) (bookings d)\<rparr>"

subsection \<open>Operations of \<^verbatim>\<open>BookingService\<close>\<close>

text \<open>
  \<^verbatim>\<open>create_booking\<close>, the body of its transaction. \<open>now\<close> is
  \<^verbatim>\<open>datetime.utcnow()\<close> and \<open>new_id\<close> the \<^verbatim>\<open>uuid4()\<close> drawn for the row; the
  insert fails on a primary key that exists or a row that violates the table's checks.
  The queued notification tasks and the text of the history entries do not touch the
  tables and are left out.
\<close>

definition create_booking_tx ::
    "settings \<Rightarrow> datetime \<Rightarrow> uuid \<Rightarrow> uuid \<Rightarrow> uuid \<Rightarrow> int \<Rightarrow> uuid list \<Rightarrow> db
       \<Rightarrow> error + Booking \<times> db" where
  "create_booking_tx cfg now new_id user_id event_id qty seat_ids d =
     and_then (get_event_with_lock event_id d) (\<lambda>event.
     and_then (validate_booking_request cfg now event qty seat_ids d) (\<lambda>_.
       let booking = \<lparr>bk_id = new_id, bk_user_id = user_id, bk_event_id = event_id,
                       quantity = qty,
                       total_amount = calculate_total_amount event qty seat_ids d,
                       bk_status = PENDING,
                       expires_at = Some (now + minutes (booking_hold_timeout_minutes cfg))\<rparr>
       in if new_id \<in> set (map bk_id (bookings d)) \<or> \<not> booking_checks booking
          then Inl (IntegrityError INSERT_bookings)
          else
            and_then
              (if seat_ids \<noteq> []
               then reserve_specific_seats booking seat_ids (d\<lparr>bookings := bookings d @ [booking]\<rparr>)
               else update_event_capacity event qty (d\<lparr>bookings := bookings d @ [booking]\<rparr>))
              (\<lambda>d'. Inr (booking, create_booking_history new_id ACT_CREATED d'))))"

text \<open>
  The \<^verbatim>\<open>except Exception\<close> clause of \<^verbatim>\<open>create_booking\<close> looks for the words
  "version" and "concurrent" in \<^verbatim>\<open>str(e)\<close>. None of the messages raised by the
  repository's code contains them; the text of a database error quotes the failed
  statement, and only the \<^verbatim>\<open>UPDATE events\<close> statement names the column
  \<^verbatim>\<open>version\<close>. Both other branches end in \<^verbatim>\<open>raise BookingError(...)\<close>, a
  \<open>NameError\<close>. Every failure rolls the transaction back. This is the function as it
  is written under the decorator (its \<^verbatim>\<open>__wrapped__\<close>).
\<close>

fun str_mentions_version_or_concurrent :: "error \<Rightarrow> bool" where
  "str_mentions_version_or_concurrent (IntegrityError UPDATE_events) = True"
| "str_mentions_version_or_concurrent _ = False"

definition create_booking_wrapped ::
    "settings \<Rightarrow> datetime \<Rightarrow> uuid \<Rightarrow> uuid \<Rightarrow> uuid \<Rightarrow> int \<Rightarrow> uuid list \<Rightarrow> db
       \<Rightarrow> error + Booking \<times> db" where
  "create_booking_wrapped cfg now new_id user_id event_id qty seat_ids d =
     (case create_booking_tx cfg now new_id user_id event_id qty seat_ids d of
        Inr r \<Rightarrow> Inr r
      | Inl e \<Rightarrow> if str_mentions_version_or_concurrent e then Inl ConcurrencyError
                 else Inl NameError)"

text \<open>
  \<^verbatim>\<open>utils/retry.py\<close>. \<^verbatim>\<open>retry_async\<close> runs the function up to
  \<^verbatim>\<open>max_attempts\<close> times: a result is returned, a \<open>ConcurrencyError\<close> is
  remembered and the next attempt made, any other exception leaves at once; after
  the last attempt the remembered exception is raised (\<^verbatim>\<open>raise None\<close>, a
  \<open>TypeError\<close>, when there was no attempt). \<open>func attempt\<close> is the outcome of the
  attempt of that number; a failed attempt has rolled back. (\<^verbatim>\<open>asyncio.TimeoutError\<close>
  is retried as well; none of the statements modelled here raises it.)
\<close>

fun retry_async :: "(nat \<Rightarrow> error + 'a) \<Rightarrow> nat \<Rightarrow> nat \<Rightarrow> error option \<Rightarrow> error + 'a" where
  "retry_async func attempt 0 last_exception =
     (case last_exception of None \<Rightarrow> Inl TypeError | Some e \<Rightarrow> Inl e)"
| "retry_async func attempt (Suc remaining) last_exception =
     (case func attempt of
        Inr result \<Rightarrow> Inr result
      | Inl e \<Rightarrow> if e = ConcurrencyError
                 then retry_async func (attempt + 1) remaining (Some e)
                 else Inl e)"

text \<open>
  The wrapper that \<^verbatim>\<open>retry_on_concurrency_error\<close> puts in place of the function
  calls \<^verbatim>\<open>retry_async(func, config, retryable_exceptions=..., non_retryable_exceptions=...,
  *args, **kwargs)\<close>. The positional arguments it received follow \<^verbatim>\<open>func\<close> and
  \<^verbatim>\<open>config\<close>, so the first of them is bound to the parameter
  \<^verbatim>\<open>retryable_exceptions\<close>, which is also given by keyword: Python raises
  \<open>TypeError\<close> (multiple values for the argument) before \<^verbatim>\<open>retry_async\<close> starts.
  \<open>positional\<close> is the number of positional arguments of the call.
\<close>

definition retry_on_concurrency_error :: "nat \<Rightarrow> nat \<Rightarrow> (nat \<Rightarrow> error + 'a) \<Rightarrow> error + 'a" where
  "retry_on_concurrency_error max_attempts positional func =
     (if positional > 0 then Inl TypeError else retry_async func 0 max_attempts None)"

text \<open>
  \<^verbatim>\<open>BookingService.create_booking\<close> as callers get it: the method under
  \<^verbatim>\<open>@retry_on_concurrency_error(max_attempts=3, ...)\<close>. A method call always
  passes \<^verbatim>\<open>self\<close> positionally (the API passes everything else by keyword), so
  \<open>positional\<close> is 1. \<open>now attempt\<close> is the clock at each attempt.
\<close>

definition create_booking ::
    "settings \<Rightarrow> (nat \<Rightarrow> datetime) \<Rightarrow> uuid \<Rightarrow> uuid \<Rightarrow> uuid \<Rightarrow> int \<Rightarrow> uuid list \<Rightarrow> db
       \<Rightarrow> error + Booking \<times> db" where
  "create_booking cfg now new_id user_id event_id qty seat_ids d =
     retry_on_concurrency_error 3 1
       (\<lambda>attempt. create_booking_wrapped cfg (now attempt) new_id user_id event_id qty seat_ids d)"

definition confirm_booking :: "datetime \<Rightarrow> uuid \<Rightarrow> db \<Rightarrow> error + Booking \<times> db" where
  "confirm_booking now booking_id d =
     and_then (get_booking_with_relations booking_id d) (\<lambda>booking.
     and_then (validate_booking_confirmation now booking) (\<lambda>_.
       let booking' = booking\<lparr>bk_status := CONFIRMED, expires_at := None\<rparr>
       in Inr (booking', create_booking_history (bk_id booking') ACT_CONFIRMED
                           (save_booking booking' d))))"

definition cancel_booking :: "uuid \<Rightarrow> db \<Rightarrow> error + Booking \<times> db" where
  "cancel_booking booking_id d =
     and_then (get_booking_with_relations booking_id d) (\<lambda>booking.
     and_then (validate_booking_cancellation booking) (\<lambda>_.
     and_then (release_booking_capacity booking d) (\<lambda>d'.
       let booking' = booking\<lparr>bk_status := CANCELLED, expires_at := None\<rparr>
       in Inr (booking', create_booking_history (bk_id booking') ACT_CANCELLED
                           (save_booking booking' d')))))"

text \<open>
  The statements of \<^verbatim>\<open>cancel_booking\<close> that follow its read and its validation.
  \<open>booking\<close> is the object the transaction loaded with its \<^verbatim>\<open>select\<close>, \<open>d\<close> the
  tables when these statements run. The \<^verbatim>\<open>select\<close> takes no lock and the
  \<^verbatim>\<open>UPDATE\<close> of the event has no condition on the booking or on the version, so
  another transaction may have committed in between. At commit the ORM writes the two
  attributes it changed; \<open>save_booking\<close> writes the loaded row with them changed,
  which is the same row, since no operation writes any other column of a booking. The
  \<^verbatim>\<open>seat_bookings\<close> of the booking were loaded with it; no operation adds or removes
  such rows for an existing booking, so reading them from \<open>d\<close> gives the same list.
\<close>

definition cancel_booking_write :: "Booking \<Rightarrow> db \<Rightarrow> error + Booking \<times> db" where
  "cancel_booking_write booking d =
     and_then (release_booking_capacity booking d) (\<lambda>d'.
       let booking' = booking\<lparr>bk_status := CANCELLED, expires_at := None\<rparr>
       in Inr (booking', create_booking_history (bk_id booking') ACT_CANCELLED
                           (save_booking booking' d')))"

definition expire_booking :: "uuid \<Rightarrow> db \<Rightarrow> error + Booking \<times> db" where
  "expire_booking booking_id d =
     and_then (get_booking_with_relations booking_id d) (\<lambda>booking.
       if bk_status booking \<noteq> PENDING then Inr (booking, d)
       else
         and_then (release_booking_capacity booking d) (\<lambda>d'.
           let booking' = booking\<lparr>bk_status := EXPIRED\<rparr>
           in Inr (booking', create_booking_history (bk_id booking') ACT_EXPIRED
                               (save_booking booking' d'))))"

text \<open>\<^verbatim>\<open>get_expired_bookings\<close>: what the sweeper hands to \<^verbatim>\<open>expire_booking\<close>.\<close>

definition get_expired_bookings :: "datetime \<Rightarrow> nat \<Rightarrow> db \<Rightarrow> Booking list" where
  "get_expired_bookings now limit d =
     take limit (filter (\<lambda>b. bk_status b = PENDING \<and>
                             (case expires_at b of None \<Rightarrow> False | Some t \<Rightarrow> t < now))
                        (bookings d))"

section \<open>Seat service\<close>

text \<open>
  \<^verbatim>\<open>SeatService.release_booked_seats\<close>. After the seats are set AVAILABLE the code
  comments "Delete seat booking records" and executes a \<^verbatim>\<open>select(SeatBooking)\<close>,
  which reads and changes nothing. No statement of the function can violate a
  constraint, so its \<^verbatim>\<open>except IntegrityError\<close> clause is never entered.
\<close>

definition release_booked_seats :: "uuid \<Rightarrow> db \<Rightarrow> db" where
  "release_booked_seats booking_id d =
     (let seat_ids = map sb_seat_id (filter (\<lambda>sb. sb_booking_id sb = booking_id) (seat_bookings d))
      in if seat_ids \<noteq> []
         then d\<lparr>seats := sql_update (\<lambda>s. seat_id s \<in> set seat_ids)
                            (\<lambda>s. s\<lparr>seat_status := AVAILABLE\<rparr>) (seats d)\<rparr>
         else d)"

section \<open>Waitlist service\<close>

definition get_event :: "uuid \<Rightarrow> db \<Rightarrow> error + Event" where
  "get_event event_id d =
     and_then (scalar_one_or_none (filter (\<lambda>e. ev_id e = event_id) (events d)))
       (\<lambda>found. case found of
           None \<Rightarrow> Inl WaitlistError
         | Some event \<Rightarrow> if \<not> ev_is_active event then Inl WaitlistError else Inr event)"

definition get_user_waitlist_entry :: "uuid \<Rightarrow> uuid \<Rightarrow> db \<Rightarrow> error + Waitlist option" where
  "get_user_waitlist_entry user_id event_id d =
     scalar_one_or_none
       (filter (\<lambda>w. wl_user_id w = user_id \<and> wl_event_id w = event_id \<and>
                     wl_status w \<in> {WL_ACTIVE, WL_NOTIFIED}) (waitlist d))"

definition get_waitlist_entry :: "uuid \<Rightarrow> db \<Rightarrow> error + Waitlist" where
  "get_waitlist_entry waitlist_id d =
     and_then (scalar_one_or_none (filter (\<lambda>w. wl_id w = waitlist_id) (waitlist d)))
       (\<lambda>found. case found of None \<Rightarrow> Inl WaitlistNotFoundError | Some entry \<Rightarrow> Inr entry)"

text \<open>\<^verbatim>\<open>_get_next_waitlist_position\<close>: \<^verbatim>\<open>(max(position) or 0) + 1\<close> over every
  row of the event, whatever its status.\<close>

definition get_next_waitlist_position :: "uuid \<Rightarrow> db \<Rightarrow> int" where
  "get_next_waitlist_position event_id d =
     (case map wl_position (filter (\<lambda>w. wl_event_id w = event_id) (waitlist d)) of
        [] \<Rightarrow> 0 + 1
      | p # ps \<Rightarrow> (if fold max ps p = 0 then 0 else fold max ps p) + 1)"

text \<open>\<^verbatim>\<open>_get_active_waitlist_entries\<close>: the ACTIVE rows of the event by ascending
  position (rows of equal position stay in table order).\<close>

definition get_active_waitlist_entries :: "uuid \<Rightarrow> db \<Rightarrow> Waitlist list" where
  "get_active_waitlist_entries event_id d =
     sort_key wl_position
       (filter (\<lambda>w. wl_event_id w = event_id \<and> wl_status w = WL_ACTIVE) (waitlist d))"

text \<open>\<^verbatim>\<open>_reorder_waitlist_after_removal\<close>. Every \<^verbatim>\<open>UPDATE\<close> of a row also sets
  its \<^verbatim>\<open>updated_at\<close> (\<^verbatim>\<open>onupdate=func.now()\<close> in \<^verbatim>\<open>models/base.py\<close>).\<close>

definition reorder_waitlist_after_removal :: "datetime \<Rightarrow> uuid \<Rightarrow> int \<Rightarrow> db \<Rightarrow> error + db" where
  "reorder_waitlist_after_removal now event_id removed_position d =
     update_waitlist
       (\<lambda>w. wl_event_id w = event_id \<and> wl_position w > removed_position \<and>
             wl_status w \<in> {WL_ACTIVE, WL_NOTIFIED})
       (\<lambda>w. w\<lparr>wl_position := wl_position w - 1, wl_updated_at := now\<rparr>) d"

text \<open>
  \<^verbatim>\<open>join_waitlist\<close> (its two branches, inside or outside a running transaction, do
  the same). The table has a unique constraint on (user, event) over rows of every
  status; its violation is reported as \<open>AlreadyOnWaitlistError\<close>, any other
  integrity error as \<open>WaitlistError\<close>.
\<close>

definition join_waitlist ::
    "datetime \<Rightarrow> uuid \<Rightarrow> uuid \<Rightarrow> uuid \<Rightarrow> int \<Rightarrow> db \<Rightarrow> error + Waitlist \<times> db" where
  "join_waitlist now new_id user_id event_id req d =
     and_then (get_event event_id d) (\<lambda>event.
       if available_capacity event \<ge> req then Inl EventNotSoldOutError
       else
         and_then (get_user_waitlist_entry user_id event_id d) (\<lambda>existing_entry.
           if existing_entry \<noteq> None then Inl AlreadyOnWaitlistError
           else
             let waitlist_entry =
                   \<lparr>wl_id = new_id, wl_user_id = user_id, wl_event_id = event_id,
                    requested_quantity = req,
                    wl_position = get_next_waitlist_position event_id d,
                    wl_status = WL_ACTIVE, wl_updated_at = now\<rparr>
             in if \<not> waitlist_checks waitlist_entry \<or> new_id \<in> set (map wl_id (waitlist d))
                then Inl WaitlistError
                else if filter (\<lambda>w. wl_user_id w = user_id \<and> wl_event_id w = event_id)
                          (waitlist d) \<noteq> []
                then Inl AlreadyOnWaitlistError
                else Inr (waitlist_entry, d\<lparr>waitlist := waitlist d @ [waitlist_entry]\<rparr>)))"

text \<open>\<^verbatim>\<open>leave_waitlist\<close>: every exception leaves as \<open>WaitlistError\<close>.\<close>

definition leave_waitlist :: "datetime \<Rightarrow> uuid \<Rightarrow> uuid \<Rightarrow> db \<Rightarrow> error + bool \<times> db" where
  "leave_waitlist now user_id event_id d =
     (case get_user_waitlist_entry user_id event_id d of
        Inl e \<Rightarrow> Inl WaitlistError
      | Inr None \<Rightarrow> Inr (False, d)
      | Inr (Some waitlist_entry) \<Rightarrow>
          (case reorder_waitlist_after_removal now event_id (wl_position waitlist_entry)
                  (d\<lparr>waitlist := filter (\<lambda>w. wl_id w \<noteq> wl_id waitlist_entry) (waitlist d)\<rparr>) of
             Inl e \<Rightarrow> Inl WaitlistError
           | Inr d' \<Rightarrow> Inr (True, d')))"

text \<open>
  \<^verbatim>\<open>notify_waitlist\<close>: the loop over the ACTIVE entries. It leaves the loop only when
  nothing remains; an entry that asks for more than remains is passed over and the
  loop goes on to the next one.
\<close>

fun notify_loop :: "Waitlist list \<Rightarrow> int \<Rightarrow> Waitlist list" where
  "notify_loop [] remaining_quantity = []"
| "notify_loop (entry # rest) remaining_quantity =
     (if remaining_quantity \<le> 0 then []
      else if requested_quantity entry \<le> remaining_quantity
      then entry # notify_loop rest (remaining_quantity - requested_quantity entry)
      else notify_loop rest remaining_quantity)"

definition notify_waitlist :: "datetime \<Rightarrow> uuid \<Rightarrow> int \<Rightarrow> db \<Rightarrow> Waitlist list \<times> db" where
  "notify_waitlist now event_id available_quantity d =
     (let notified_entries = notify_loop (get_active_waitlist_entries event_id d) available_quantity;
          mark = (\<lambda>w. w\<lparr>wl_status := WL_NOTIFIED, wl_updated_at := now\<rparr>)
      in (map mark notified_entries,
          d\<lparr>waitlist := sql_update (\<lambda>w. wl_id w \<in> set (map wl_id notified_entries)) mark
                            (waitlist d)\<rparr>))"

text \<open>\<^verbatim>\<open>convert_waitlist_to_booking\<close>: the entry keeps its position.\<close>

definition convert_waitlist_to_booking :: "datetime \<Rightarrow> uuid \<Rightarrow> db \<Rightarrow> error + Waitlist \<times> db" where
  "convert_waitlist_to_booking now waitlist_id d =
     and_then (get_waitlist_entry waitlist_id d) (\<lambda>waitlist_entry.
       let converted = waitlist_entry\<lparr>wl_status := WL_CONVERTED, wl_updated_at := now\<rparr>
       in and_then
            (reorder_waitlist_after_removal now (wl_event_id waitlist_entry)
               (wl_position waitlist_entry)
               (d\<lparr>waitlist := sql_update (\<lambda>w. wl_id w = waitlist_id) (\<lambda>_. converted) (waitlist d)\<rparr>))
            (\<lambda>d'. Inr (converted, d')))"

text \<open>
  \<^verbatim>\<open>expire_waitlist_notifications\<close>: each stale NOTIFIED entry, in turn, gets the
  position after the largest one of its event and becomes ACTIVE again; the other
  entries keep their positions. Every exception leaves as \<open>WaitlistError\<close>.
\<close>

fun expire_loop :: "datetime \<Rightarrow> Waitlist list \<Rightarrow> db \<Rightarrow> error + db" where
  "expire_loop now [] d = Inr d"
| "expire_loop now (entry # rest) d =
     (case update_waitlist (\<lambda>w. wl_id w = wl_id entry)
             (\<lambda>w. w\<lparr>wl_position := get_next_waitlist_position (wl_event_id entry) d,
                     wl_status := WL_ACTIVE, wl_updated_at := now\<rparr>) d of
        Inl e \<Rightarrow> Inl WaitlistError
      | Inr d' \<Rightarrow> expire_loop now rest d')"

definition expire_waitlist_notifications :: "settings \<Rightarrow> datetime \<Rightarrow> db \<Rightarrow> error + db" where
  "expire_waitlist_notifications cfg now d =
     expire_loop now
       (filter (\<lambda>w. wl_status w = WL_NOTIFIED \<and>
                     wl_updated_at w < now - hours (waitlist_notification_timeout_hours cfg))
               (waitlist d)) d"

section \<open>Dynamic pricing: the waitlist factor\<close>

text \<open>
  \<^verbatim>\<open>DynamicPricingService._calculate_waitlist_multiplier\<close>. The quotient of two
  integers and its comparison with \<open>2.0\<close>, \<open>1.0\<close> and \<open>0.5\<close> are modelled exactly, in
  \<^typ>\<open>rat\<close>: for the 32-bit \<^verbatim>\<open>Integer\<close> columns involved the correctly rounded
  float quotient lies on the same side of these three thresholds as the exact one.
\<close>

definition waitlist_size :: "Event \<Rightarrow> db \<Rightarrow> int" where
  "waitlist_size event d = int (length (filter (\<lambda>w. wl_event_id w = ev_id event) (waitlist d)))"

definition waitlist_multiplier_of :: "int \<Rightarrow> int \<Rightarrow> rat" where
  "waitlist_multiplier_of wsize avail =
     (if wsize = 0 then 1
      else
        let waitlist_pressure =
              (if avail > 0 then (of_int wsize :: rat) / of_int avail else of_int wsize / 10)
        in if waitlist_pressure \<ge> 2 then 13 / 10
           else if waitlist_pressure \<ge> 1 then 115 / 100
           else if waitlist_pressure \<ge> 1 / 2 then 105 / 100
           else 1)"

definition calculate_waitlist_multiplier :: "Event \<Rightarrow> db \<Rightarrow> rat" where
  "calculate_waitlist_multiplier event d =
     waitlist_multiplier_of (waitlist_size event d) (available_capacity event)"

text \<open>The step function of the specification, and its formula for the pressure.\<close>

definition pressure_factor :: "rat \<Rightarrow> rat" where
  "pressure_factor p =
     (if p \<ge> 2 then 13 / 10 else if p \<ge> 1 then 115 / 100
      else if p \<ge> 1 / 2 then 105 / 100 else 1)"

definition spec_waitlist_factor :: "int \<Rightarrow> int \<Rightarrow> rat" where
  "spec_waitlist_factor wsize avail = pressure_factor (of_int wsize / of_int (max avail 10))"

section \<open>The waitlist invariant and the offer rule of the specification\<close>

text \<open>The positions of the non-terminal (ACTIVE or NOTIFIED) entries of an event, in
  ascending order, and the invariant of the specification: they are \<open>1, \<dots>, k\<close>.\<close>

definition nonterminal_positions :: "uuid \<Rightarrow> db \<Rightarrow> int list" where
  "nonterminal_positions event_id d =
     sort (map wl_position
       (filter (\<lambda>w. wl_event_id w = event_id \<and> wl_status w \<in> {WL_ACTIVE, WL_NOTIFIED})
          (waitlist d)))"

definition positions_contiguous :: "uuid \<Rightarrow> db \<Rightarrow> bool" where
  "positions_contiguous event_id d \<longleftrightarrow>
     nonterminal_positions event_id d = [1 .. int (length (nonterminal_positions event_id d))]"

text \<open>The offer rule as the specification words it (head of line): the walk stops at
  the first entry that asks for more than remains.\<close>

fun spec_offer_loop :: "Waitlist list \<Rightarrow> int \<Rightarrow> Waitlist list" where
  "spec_offer_loop [] remaining = []"
| "spec_offer_loop (entry # rest) remaining =
     (if requested_quantity entry \<le> remaining
      then entry # spec_offer_loop rest (remaining - requested_quantity entry)
      else [])"

section \<open>The capacity invariant of the specification\<close>




section \<open>Example states\<close>

text \<open>One event of ten tickets with one seat and a pending general-admission booking of
  two tickets.\<close>

definition example_db1 :: db where
  "example_db1 =
     \<lparr>events = [\<lparr>ev_id = 1, event_date = 5000, total_capacity = 10, available_capacity = 8,
                 ev_price = 5000, has_seat_selection = True, version = 2, ev_is_active = True\<rparr>],
      seats = [\<lparr>seat_id = 21, seat_event_id = 1, seat_price = 4000, seat_status = AVAILABLE\<rparr>],
      bookings = [\<lparr>bk_id = 7, bk_user_id = 3, bk_event_id = 1, quantity = 2, total_amount = 10000,
                   bk_status = PENDING, expires_at = Some 900000000\<rparr>],
      seat_bookings = [],
      booking_history = [\<lparr>bh_booking_id = 7, bh_action = ACT_CREATED\<rparr>], waitlist = []\<rparr>"





section \<open>Properties\<close>

lemmas store_defs = sql_update_def rowcount_def scalar_one_or_none_def and_then_def
  update_events_def update_waitlist_def event_checks_def booking_checks_def waitlist_checks_def
  Let_def

lemmas booking_defs = get_event_with_lock_def validate_seat_availability_def
  validate_booking_request_def calculate_total_amount_def reserve_specific_seats_def
  update_event_capacity_def get_booking_with_relations_def is_expired_def seat_bookings_of_def
  validate_booking_confirmation_def validate_booking_cancellation_def
  release_booking_capacity_def create_booking_history_def save_booking_def
  create_booking_tx_def create_booking_wrapped_def confirm_booking_def cancel_booking_def
  expire_booking_def minutes_def hours_def

lemmas waitlist_defs = get_event_def get_user_waitlist_entry_def get_waitlist_entry_def
  get_next_waitlist_position_def get_active_waitlist_entries_def
  reorder_waitlist_after_removal_def join_waitlist_def leave_waitlist_def notify_waitlist_def
  convert_waitlist_to_booking_def expire_waitlist_notifications_def
  nonterminal_positions_def positions_contiguous_def


subsection \<open>Waitlist factor\<close>

lemma pressure_factor_zero: "pressure_factor 0 = 1"
  by (simp add: pressure_factor_def)

text \<open>
  C10, as the specification states it, fails: with five waitlist entries and five
  tickets left the code divides by 5, not by \<open>max 5 10\<close>, and answers 1.15 where the
  formula of the specification gives 1.05.
\<close>

theorem waitlist_factor_counterexample:
  "calculate_waitlist_multiplier
     \<lparr>ev_id = 1, event_date = 0, total_capacity = 100, available_capacity = 5, ev_price = 0,
      has_seat_selection = False, version = 1, ev_is_active = True\<rparr>
     \<lparr>events = [], seats = [], bookings = [], seat_bookings = [], booking_history = [],
      waitlist = map (\<lambda>i. \<lparr>wl_id = i, wl_user_id = i, wl_event_id = 1, requested_quantity = 1,
                              wl_position = int i, wl_status = WL_ACTIVE, wl_updated_at = 0\<rparr>)
                     [1, 2, 3, 4, 5]\<rparr>
     = 115 / 100
   \<and> spec_waitlist_factor 5 5 = 105 / 100"
  by (simp add: calculate_waitlist_multiplier_def waitlist_size_def waitlist_multiplier_of_def
      spec_waitlist_factor_def pressure_factor_def)

text \<open>
  C10 (amended): the pressure is the waitlist size divided by the available capacity
  itself when that is positive, and by 10 only when the event is sold out; the factor
  is the step function 1.3 / 1.15 / 1.05 / 1.0 of that pressure.
\<close>

theorem waitlist_factor_amended:
  "calculate_waitlist_multiplier event d =
     pressure_factor (of_int (waitlist_size event d) /
       of_int (if available_capacity event > 0 then available_capacity event else 10))"
  by (simp add: calculate_waitlist_multiplier_def waitlist_multiplier_of_def pressure_factor_def
      Let_def)


subsection \<open>Confirmation at the expiry instant\<close>

text \<open>
  C5, as the specification states it, fails: \<^verbatim>\<open>is_expired\<close> compares with a strict
  \<open>>\<close>, so a confirmation at \<open>now = expires_at\<close> (here both 1000) is accepted and the
  booking becomes CONFIRMED with its expiry cleared.
\<close>

theorem confirm_at_expiry_counterexample:
  "confirm_booking 1000 7
     \<lparr>events = [], seats = [],
      bookings = [\<lparr>bk_id = 7, bk_user_id = 3, bk_event_id = 1, quantity = 2, total_amount = 10000,
                   bk_status = PENDING, expires_at = Some 1000\<rparr>],
      seat_bookings = [], booking_history = [], waitlist = []\<rparr>
   = Inr (\<lparr>bk_id = 7, bk_user_id = 3, bk_event_id = 1, quantity = 2, total_amount = 10000,
           bk_status = CONFIRMED, expires_at = None\<rparr>,
          \<lparr>events = [], seats = [],
           bookings = [\<lparr>bk_id = 7, bk_user_id = 3, bk_event_id = 1, quantity = 2,
                        total_amount = 10000, bk_status = CONFIRMED, expires_at = None\<rparr>],
           seat_bookings = [],
           booking_history = [\<lparr>bh_booking_id = 7, bh_action = ACT_CONFIRMED\<rparr>],
           waitlist = []\<rparr>)"
  by (simp add: booking_defs store_defs)

text \<open>
  C5 (amended): for a PENDING booking with \<open>expires_at = t\<close>, a confirmation is
  rejected with \<open>BookingExpiredError\<close> exactly when \<open>now > t\<close> (the transaction is
  rolled back, so nothing changes); at \<open>now \<le> t\<close>, the instant \<open>t\<close> included, it
  succeeds, sets the status to CONFIRMED and clears \<open>expires_at\<close>.
\<close>

theorem confirm_expiry_boundary:
  assumes "filter (\<lambda>b. bk_id b = booking_id) (bookings d) = [booking]"
    and "bk_status booking = PENDING"
    and "expires_at booking = Some t"
  shows "confirm_booking now booking_id d =
           (if now > t then Inl BookingExpiredError
            else Inr (booking\<lparr>bk_status := CONFIRMED, expires_at := None\<rparr>,
                      create_booking_history booking_id ACT_CONFIRMED
                        (save_booking (booking\<lparr>bk_status := CONFIRMED, expires_at := None\<rparr>) d)))"
proof -
  have "booking \<in> set (filter (\<lambda>b. bk_id b = booking_id) (bookings d))"
    using assms(1) by simp
  then have id: "bk_id booking = booking_id" by simp
  show ?thesis
    using assms id
    by (simp add: confirm_booking_def get_booking_with_relations_def scalar_one_or_none_def
        and_then_def validate_booking_confirmation_def is_expired_def Let_def)
qed

theorem confirm_expiry_boundary_witness:
  "confirm_booking 1000 7
     \<lparr>events = [], seats = [],
      bookings = [\<lparr>bk_id = 7, bk_user_id = 3, bk_event_id = 1, quantity = 2, total_amount = 10000,
                   bk_status = PENDING, expires_at = Some 1000\<rparr>],
      seat_bookings = [], booking_history = [], waitlist = []\<rparr>
   \<noteq> Inl BookingExpiredError
   \<and> confirm_booking 1001 7
     \<lparr>events = [], seats = [],
      bookings = [\<lparr>bk_id = 7, bk_user_id = 3, bk_event_id = 1, quantity = 2, total_amount = 10000,
                   bk_status = PENDING, expires_at = Some 1000\<rparr>],
      seat_bookings = [], booking_history = [], waitlist = []\<rparr>
   = Inl BookingExpiredError"
  using confirm_expiry_boundary [of 7 "\<lparr>events = [], seats = [],
      bookings = [\<lparr>bk_id = 7, bk_user_id = 3, bk_event_id = 1, quantity = 2, total_amount = 10000,
                   bk_status = PENDING, expires_at = Some 1000\<rparr>],
      seat_bookings = [], booking_history = [], waitlist = []\<rparr>"
      "\<lparr>bk_id = 7, bk_user_id = 3, bk_event_id = 1, quantity = 2, total_amount = 10000,
                   bk_status = PENDING, expires_at = Some 1000\<rparr>" 1000 1000]
    confirm_expiry_boundary [of 7 "\<lparr>events = [], seats = [],
      bookings = [\<lparr>bk_id = 7, bk_user_id = 3, bk_event_id = 1, quantity = 2, total_amount = 10000,
                   bk_status = PENDING, expires_at = Some 1000\<rparr>],
      seat_bookings = [], booking_history = [], waitlist = []\<rparr>"
      "\<lparr>bk_id = 7, bk_user_id = 3, bk_event_id = 1, quantity = 2, total_amount = 10000,
                   bk_status = PENDING, expires_at = Some 1000\<rparr>" 1000 1001]
  by simp

subsection \<open>Expiring a booking\<close>

text \<open>
  C7: \<^verbatim>\<open>expire_booking\<close> sets the status to EXPIRED and, unlike
  \<^verbatim>\<open>confirm_booking\<close> and \<^verbatim>\<open>cancel_booking\<close>, never assigns
  \<^verbatim>\<open>expires_at = None\<close>: the expired booking keeps its expiry time.
\<close>

theorem expire_keeps_expires_at:
  "expire_booking 7
     \<lparr>events = [\<lparr>ev_id = 1, event_date = 5000, total_capacity = 10, available_capacity = 8,
                 ev_price = 5000, has_seat_selection = False, version = 2, ev_is_active = True\<rparr>],
      seats = [],
      bookings = [\<lparr>bk_id = 7, bk_user_id = 3, bk_event_id = 1, quantity = 2, total_amount = 10000,
                   bk_status = PENDING, expires_at = Some 1000\<rparr>],
      seat_bookings = [], booking_history = [], waitlist = []\<rparr>
   = Inr (\<lparr>bk_id = 7, bk_user_id = 3, bk_event_id = 1, quantity = 2, total_amount = 10000,
           bk_status = EXPIRED, expires_at = Some 1000\<rparr>,
          \<lparr>events = [\<lparr>ev_id = 1, event_date = 5000, total_capacity = 10, available_capacity = 10,
                      ev_price = 5000, has_seat_selection = False, version = 3,
                      ev_is_active = True\<rparr>],
           seats = [],
           bookings = [\<lparr>bk_id = 7, bk_user_id = 3, bk_event_id = 1, quantity = 2,
                        total_amount = 10000, bk_status = EXPIRED, expires_at = Some 1000\<rparr>],
           seat_bookings = [],
           booking_history = [\<lparr>bh_booking_id = 7, bh_action = ACT_EXPIRED\<rparr>],
           waitlist = []\<rparr>)"
  by (simp add: booking_defs store_defs)

subsection \<open>Confirming a booking with seats\<close>

text \<open>
  C4: \<^verbatim>\<open>confirm_booking\<close> writes the booking and its history only. The seats of
  the booking stay HELD; \<^verbatim>\<open>SeatService.book_seats\<close>, which would set them BOOKED,
  is never called.
\<close>

theorem confirm_leaves_seats_held:
  "confirm_booking 500 7
     \<lparr>events = [\<lparr>ev_id = 1, event_date = 5000, total_capacity = 10, available_capacity = 10,
                 ev_price = 5000, has_seat_selection = True, version = 1, ev_is_active = True\<rparr>],
      seats = [\<lparr>seat_id = 21, seat_event_id = 1, seat_price = 4000, seat_status = HELD\<rparr>,
               \<lparr>seat_id = 22, seat_event_id = 1, seat_price = 6000, seat_status = HELD\<rparr>],
      bookings = [\<lparr>bk_id = 7, bk_user_id = 3, bk_event_id = 1, quantity = 2, total_amount = 10000,
                   bk_status = PENDING, expires_at = Some 1000\<rparr>],
      seat_bookings = [\<lparr>sb_booking_id = 7, sb_seat_id = 21\<rparr>, \<lparr>sb_booking_id = 7, sb_seat_id = 22\<rparr>],
      booking_history = [], waitlist = []\<rparr>
   = Inr (\<lparr>bk_id = 7, bk_user_id = 3, bk_event_id = 1, quantity = 2, total_amount = 10000,
           bk_status = CONFIRMED, expires_at = None\<rparr>,
          \<lparr>events = [\<lparr>ev_id = 1, event_date = 5000, total_capacity = 10, available_capacity = 10,
                      ev_price = 5000, has_seat_selection = True, version = 1,
                      ev_is_active = True\<rparr>],
           seats = [\<lparr>seat_id = 21, seat_event_id = 1, seat_price = 4000, seat_status = HELD\<rparr>,
                    \<lparr>seat_id = 22, seat_event_id = 1, seat_price = 6000, seat_status = HELD\<rparr>],
           bookings = [\<lparr>bk_id = 7, bk_user_id = 3, bk_event_id = 1, quantity = 2,
                        total_amount = 10000, bk_status = CONFIRMED, expires_at = None\<rparr>],
           seat_bookings = [\<lparr>sb_booking_id = 7, sb_seat_id = 21\<rparr>,
                            \<lparr>sb_booking_id = 7, sb_seat_id = 22\<rparr>],
           booking_history = [\<lparr>bh_booking_id = 7, bh_action = ACT_CONFIRMED\<rparr>],
           waitlist = []\<rparr>)"
  by (simp add: booking_defs store_defs)

subsection \<open>Cancelling a confirmed booking with seats\<close>

text \<open>
  C6: \<^verbatim>\<open>cancel_booking\<close> and \<^verbatim>\<open>release_booked_seats\<close> both set the seats
  of the booking AVAILABLE, and both leave its \<^verbatim>\<open>seat_bookings\<close> rows in place.
\<close>

theorem cancel_keeps_seat_booking_rows:
  "cancel_booking 7
     \<lparr>events = [], 
      seats = [\<lparr>seat_id = 21, seat_event_id = 1, seat_price = 4000, seat_status = BOOKED\<rparr>],
      bookings = [\<lparr>bk_id = 7, bk_user_id = 3, bk_event_id = 1, quantity = 1, total_amount = 4000,
                   bk_status = CONFIRMED, expires_at = None\<rparr>],
      seat_bookings = [\<lparr>sb_booking_id = 7, sb_seat_id = 21\<rparr>],
      booking_history = [], waitlist = []\<rparr>
   = Inr (\<lparr>bk_id = 7, bk_user_id = 3, bk_event_id = 1, quantity = 1, total_amount = 4000,
           bk_status = CANCELLED, expires_at = None\<rparr>,
          \<lparr>events = [],
           seats = [\<lparr>seat_id = 21, seat_event_id = 1, seat_price = 4000, seat_status = AVAILABLE\<rparr>],
           bookings = [\<lparr>bk_id = 7, bk_user_id = 3, bk_event_id = 1, quantity = 1,
                        total_amount = 4000, bk_status = CANCELLED, expires_at = None\<rparr>],
           seat_bookings = [\<lparr>sb_booking_id = 7, sb_seat_id = 21\<rparr>],
           booking_history = [\<lparr>bh_booking_id = 7, bh_action = ACT_CANCELLED\<rparr>],
           waitlist = []\<rparr>)
   \<and> release_booked_seats 7
     \<lparr>events = [], 
      seats = [\<lparr>seat_id = 21, seat_event_id = 1, seat_price = 4000, seat_status = BOOKED\<rparr>],
      bookings = [\<lparr>bk_id = 7, bk_user_id = 3, bk_event_id = 1, quantity = 1, total_amount = 4000,
                   bk_status = CONFIRMED, expires_at = None\<rparr>],
      seat_bookings = [\<lparr>sb_booking_id = 7, sb_seat_id = 21\<rparr>],
      booking_history = [], waitlist = []\<rparr>
   = \<lparr>events = [], 
      seats = [\<lparr>seat_id = 21, seat_event_id = 1, seat_price = 4000, seat_status = AVAILABLE\<rparr>],
      bookings = [\<lparr>bk_id = 7, bk_user_id = 3, bk_event_id = 1, quantity = 1, total_amount = 4000,
                   bk_status = CONFIRMED, expires_at = None\<rparr>],
      seat_bookings = [\<lparr>sb_booking_id = 7, sb_seat_id = 21\<rparr>],
      booking_history = [], waitlist = []\<rparr>"
  by (simp add: booking_defs store_defs release_booked_seats_def)

subsection \<open>Reserving capacity\<close>

text \<open>
  C1: the caller read version 1; the stored row has version 2 and two tickets left,
  fewer than the three requested. No row matches, the row is reread, and the
  \<^verbatim>\<open>raise InsufficientCapacityError("Insufficient capacity")\<close> that follows fails
  in the constructor: the operation ends in \<open>TypeError\<close>, not in
  \<open>InsufficientCapacityError\<close>.
\<close>

theorem reserve_insufficient_raises_type_error:
  "update_event_capacity
     \<lparr>ev_id = 1, event_date = 5000, total_capacity = 10, available_capacity = 4,
      ev_price = 5000, has_seat_selection = False, version = 1, ev_is_active = True\<rparr> 3
     \<lparr>events = [\<lparr>ev_id = 1, event_date = 5000, total_capacity = 10, available_capacity = 2,
                 ev_price = 5000, has_seat_selection = False, version = 2, ev_is_active = True\<rparr>],
      seats = [], bookings = [], seat_bookings = [], booking_history = [], waitlist = []\<rparr>
   = Inl TypeError"
  by (simp add: booking_defs store_defs)

subsection \<open>Restoring capacity\<close>

text \<open>
  C2, as the specification states it, fails: releasing three tickets into an event
  with nine of ten available is not capped at ten; the \<^verbatim>\<open>UPDATE\<close> violates
  \<^verbatim>\<open>ck_events_capacity_consistency\<close> and the operation fails.
\<close>

theorem restore_not_capped_counterexample:
  "release_booking_capacity
     \<lparr>bk_id = 7, bk_user_id = 3, bk_event_id = 1, quantity = 3, total_amount = 15000,
      bk_status = PENDING, expires_at = Some 1000\<rparr>
     \<lparr>events = [\<lparr>ev_id = 1, event_date = 5000, total_capacity = 10, available_capacity = 9,
                 ev_price = 5000, has_seat_selection = False, version = 4, ev_is_active = True\<rparr>],
      seats = [],
      bookings = [\<lparr>bk_id = 7, bk_user_id = 3, bk_event_id = 1, quantity = 3, total_amount = 15000,
                   bk_status = PENDING, expires_at = Some 1000\<rparr>],
      seat_bookings = [], booking_history = [], waitlist = []\<rparr>
   = Inl (IntegrityError UPDATE_events)"
  by (simp add: booking_defs store_defs)

subsection \<open>Offering freed capacity to the waitlist\<close>

text \<open>
  C8, as the specification states it, fails: with two tickets offered, the first
  entry (position 1, three tickets) cannot be served and the loop moves on to the
  entry at position 2 (one ticket), which is notified ahead of it. The head-of-line
  rule of the specification notifies nobody.
\<close>

theorem offer_capacity_leapfrog_counterexample:
  "notify_waitlist 50 1 2
     \<lparr>events = [], seats = [], bookings = [], seat_bookings = [], booking_history = [],
      waitlist = [\<lparr>wl_id = 1, wl_user_id = 11, wl_event_id = 1, requested_quantity = 3,
                   wl_position = 1, wl_status = WL_ACTIVE, wl_updated_at = 0\<rparr>,
                  \<lparr>wl_id = 2, wl_user_id = 12, wl_event_id = 1, requested_quantity = 1,
                   wl_position = 2, wl_status = WL_ACTIVE, wl_updated_at = 0\<rparr>]\<rparr>
   = ([\<lparr>wl_id = 2, wl_user_id = 12, wl_event_id = 1, requested_quantity = 1,
        wl_position = 2, wl_status = WL_NOTIFIED, wl_updated_at = 50\<rparr>],
      \<lparr>events = [], seats = [], bookings = [], seat_bookings = [], booking_history = [],
       waitlist = [\<lparr>wl_id = 1, wl_user_id = 11, wl_event_id = 1, requested_quantity = 3,
                    wl_position = 1, wl_status = WL_ACTIVE, wl_updated_at = 0\<rparr>,
                   \<lparr>wl_id = 2, wl_user_id = 12, wl_event_id = 1, requested_quantity = 1,
                    wl_position = 2, wl_status = WL_NOTIFIED, wl_updated_at = 50\<rparr>]\<rparr>)
   \<and> spec_offer_loop
        [\<lparr>wl_id = 1, wl_user_id = 11, wl_event_id = 1, requested_quantity = 3,
          wl_position = 1, wl_status = WL_ACTIVE, wl_updated_at = 0\<rparr>,
         \<lparr>wl_id = 2, wl_user_id = 12, wl_event_id = 1, requested_quantity = 1,
          wl_position = 2, wl_status = WL_ACTIVE, wl_updated_at = 0\<rparr>] 2 = []"
  by (simp add: waitlist_defs store_defs)

lemma notify_loop_nothing_left: "remaining \<le> 0 \<Longrightarrow> notify_loop entries remaining = []"
  by (cases entries) simp_all

lemma notify_loop_split:
  "notify_loop (pre @ entry # post) q =
     (let r = q - sum_list (map requested_quantity (notify_loop pre q))
      in notify_loop pre q @
         (if 0 < r \<and> requested_quantity entry \<le> r
          then entry # notify_loop post (r - requested_quantity entry)
          else notify_loop post r))"
proof (induction pre arbitrary: q)
  case Nil
  then show ?case by (simp add: notify_loop_nothing_left)
next
  case (Cons p ps)
  show ?case
  proof (cases "q \<le> 0")
    case True
    then show ?thesis by (simp add: notify_loop_nothing_left)
  next
    case False
    then show ?thesis
      using Cons.IH [of "q - requested_quantity p"] Cons.IH [of q]
      by (simp add: Let_def algebra_simps)
  qed
qed

text \<open>
  C8 (amended): \<^verbatim>\<open>notify_waitlist\<close> walks exactly the ACTIVE entries of the event,
  in ascending position. Whatever place an entry has in that walk, it is notified
  exactly when something remains and its request is at most what remains after the
  entries notified before it; an entry that asks for more is passed over and the walk
  goes on to the later entries with the same remainder; the walk ends only when
  nothing remains. The entries returned are the notified ones, and the rows with
  their ids are the rows set to NOTIFIED; nothing else is written.
\<close>

theorem notify_waitlist_skip_and_fill:
  assumes "get_active_waitlist_entries event_id d = pre @ entry # post"
  shows "set (pre @ entry # post)
           = set (filter (\<lambda>w. wl_event_id w = event_id \<and> wl_status w = WL_ACTIVE) (waitlist d))
       \<and> length (pre @ entry # post)
           = length (filter (\<lambda>w. wl_event_id w = event_id \<and> wl_status w = WL_ACTIVE) (waitlist d))
       \<and> sorted (map wl_position (pre @ entry # post))
       \<and> fst (notify_waitlist now event_id available_quantity d)
           = (let remaining = available_quantity
                      - sum_list (map requested_quantity (notify_loop pre available_quantity))
              in map (\<lambda>w. w\<lparr>wl_status := WL_NOTIFIED, wl_updated_at := now\<rparr>)
                   (notify_loop pre available_quantity @
                    (if remaining \<le> 0 then []
                     else if requested_quantity entry \<le> remaining
                     then entry # notify_loop post (remaining - requested_quantity entry)
                     else notify_loop post remaining)))
       \<and> snd (notify_waitlist now event_id available_quantity d)
           = d\<lparr>waitlist :=
                 map (\<lambda>w. if wl_id w \<in> wl_id ` set (fst (notify_waitlist now event_id
                                                             available_quantity d))
                           then w\<lparr>wl_status := WL_NOTIFIED, wl_updated_at := now\<rparr> else w)
                     (waitlist d)\<rparr>"
proof -
  let ?act = "get_active_waitlist_entries event_id d"
  let ?rows = "filter (\<lambda>w. wl_event_id w = event_id \<and> wl_status w = WL_ACTIVE) (waitlist d)"
  let ?mark = "\<lambda>w. w\<lparr>wl_status := WL_NOTIFIED, wl_updated_at := now\<rparr>"
  have "set ?act = set ?rows" "length ?act = length ?rows" "sorted (map wl_position ?act)"
    by (simp_all add: get_active_waitlist_entries_def)
  then have entries: "set (pre @ entry # post) = set ?rows"
    "length (pre @ entry # post) = length ?rows" "sorted (map wl_position (pre @ entry # post))"
    using assms by simp_all
  have walk: "notify_loop (pre @ entry # post) available_quantity =
      (let remaining = available_quantity
                      - sum_list (map requested_quantity (notify_loop pre available_quantity))
       in notify_loop pre available_quantity @
                    (if remaining \<le> 0 then []
                     else if requested_quantity entry \<le> remaining
                     then entry # notify_loop post (remaining - requested_quantity entry)
                     else notify_loop post remaining))"
    using notify_loop_split [of pre entry post available_quantity]
    by (auto simp: Let_def notify_loop_nothing_left)
  have returned: "fst (notify_waitlist now event_id available_quantity d)
      = map ?mark (notify_loop (pre @ entry # post) available_quantity)"
    using assms by (simp add: notify_waitlist_def Let_def)
  have ids: "wl_id ` set (map ?mark xs) = set (map wl_id xs)" for xs :: "Waitlist list"
    by (induction xs) auto
  have written: "snd (notify_waitlist now event_id available_quantity d)
      = d\<lparr>waitlist := map (\<lambda>w. if wl_id w \<in> wl_id ` set (fst (notify_waitlist now event_id
                                                             available_quantity d))
                           then ?mark w else w) (waitlist d)\<rparr>"
    unfolding returned ids using assms
    by (simp add: notify_waitlist_def Let_def sql_update_def)
  from entries walk returned written show ?thesis
    by (simp add: Let_def)
qed

theorem notify_waitlist_skip_and_fill_witness:
  "get_active_waitlist_entries 1
     \<lparr>events = [], seats = [], bookings = [], seat_bookings = [], booking_history = [],
      waitlist = [\<lparr>wl_id = 2, wl_user_id = 12, wl_event_id = 1, requested_quantity = 1,
                   wl_position = 2, wl_status = WL_ACTIVE, wl_updated_at = 0\<rparr>,
                  \<lparr>wl_id = 1, wl_user_id = 11, wl_event_id = 1, requested_quantity = 3,
                   wl_position = 1, wl_status = WL_ACTIVE, wl_updated_at = 0\<rparr>,
                  \<lparr>wl_id = 3, wl_user_id = 13, wl_event_id = 1, requested_quantity = 1,
                   wl_position = 3, wl_status = WL_NOTIFIED, wl_updated_at = 0\<rparr>]\<rparr>
   = [] @ \<lparr>wl_id = 1, wl_user_id = 11, wl_event_id = 1, requested_quantity = 3,
           wl_position = 1, wl_status = WL_ACTIVE, wl_updated_at = 0\<rparr>
        # [\<lparr>wl_id = 2, wl_user_id = 12, wl_event_id = 1, requested_quantity = 1,
            wl_position = 2, wl_status = WL_ACTIVE, wl_updated_at = 0\<rparr>]
   \<and> fst (notify_waitlist 50 1 2
     \<lparr>events = [], seats = [], bookings = [], seat_bookings = [], booking_history = [],
      waitlist = [\<lparr>wl_id = 2, wl_user_id = 12, wl_event_id = 1, requested_quantity = 1,
                   wl_position = 2, wl_status = WL_ACTIVE, wl_updated_at = 0\<rparr>,
                  \<lparr>wl_id = 1, wl_user_id = 11, wl_event_id = 1, requested_quantity = 3,
                   wl_position = 1, wl_status = WL_ACTIVE, wl_updated_at = 0\<rparr>,
                  \<lparr>wl_id = 3, wl_user_id = 13, wl_event_id = 1, requested_quantity = 1,
                   wl_position = 3, wl_status = WL_NOTIFIED, wl_updated_at = 0\<rparr>]\<rparr>)
   = [\<lparr>wl_id = 2, wl_user_id = 12, wl_event_id = 1, requested_quantity = 1,
       wl_position = 2, wl_status = WL_NOTIFIED, wl_updated_at = 50\<rparr>]
   \<and> waitlist (snd (notify_waitlist 50 1 2
     \<lparr>events = [], seats = [], bookings = [], seat_bookings = [], booking_history = [],
      waitlist = [\<lparr>wl_id = 2, wl_user_id = 12, wl_event_id = 1, requested_quantity = 1,
                   wl_position = 2, wl_status = WL_ACTIVE, wl_updated_at = 0\<rparr>,
                  \<lparr>wl_id = 1, wl_user_id = 11, wl_event_id = 1, requested_quantity = 3,
                   wl_position = 1, wl_status = WL_ACTIVE, wl_updated_at = 0\<rparr>,
                  \<lparr>wl_id = 3, wl_user_id = 13, wl_event_id = 1, requested_quantity = 1,
                   wl_position = 3, wl_status = WL_NOTIFIED, wl_updated_at = 0\<rparr>]\<rparr>))
   = [\<lparr>wl_id = 2, wl_user_id = 12, wl_event_id = 1, requested_quantity = 1,
       wl_position = 2, wl_status = WL_NOTIFIED, wl_updated_at = 50\<rparr>,
      \<lparr>wl_id = 1, wl_user_id = 11, wl_event_id = 1, requested_quantity = 3,
       wl_position = 1, wl_status = WL_ACTIVE, wl_updated_at = 0\<rparr>,
      \<lparr>wl_id = 3, wl_user_id = 13, wl_event_id = 1, requested_quantity = 1,
       wl_position = 3, wl_status = WL_NOTIFIED, wl_updated_at = 0\<rparr>]"
  using notify_waitlist_skip_and_fill [of 1
     "\<lparr>events = [], seats = [], bookings = [], seat_bookings = [], booking_history = [],
      waitlist = [\<lparr>wl_id = 2, wl_user_id = 12, wl_event_id = 1, requested_quantity = 1,
                   wl_position = 2, wl_status = WL_ACTIVE, wl_updated_at = 0\<rparr>,
                  \<lparr>wl_id = 1, wl_user_id = 11, wl_event_id = 1, requested_quantity = 3,
                   wl_position = 1, wl_status = WL_ACTIVE, wl_updated_at = 0\<rparr>,
                  \<lparr>wl_id = 3, wl_user_id = 13, wl_event_id = 1, requested_quantity = 1,
                   wl_position = 3, wl_status = WL_NOTIFIED, wl_updated_at = 0\<rparr>]\<rparr>"
     "[]" "\<lparr>wl_id = 1, wl_user_id = 11, wl_event_id = 1, requested_quantity = 3,
           wl_position = 1, wl_status = WL_ACTIVE, wl_updated_at = 0\<rparr>"
     "[\<lparr>wl_id = 2, wl_user_id = 12, wl_event_id = 1, requested_quantity = 1,
            wl_position = 2, wl_status = WL_ACTIVE, wl_updated_at = 0\<rparr>]" 50 2]
  by (simp add: waitlist_defs store_defs)

subsection \<open>Waitlist positions\<close>

text \<open>
  C9: positions 1 and 2 are contiguous; once the stale NOTIFIED entry at position 1
  is expired it moves to position 3 and nothing fills the hole, while
  \<^verbatim>\<open>leave_waitlist\<close> and \<^verbatim>\<open>convert_waitlist_to_booking\<close> do close the gap
  they make. The positions are then 2 and 3.
\<close>

theorem expire_notifications_leaves_gap:
  "positions_contiguous 1
     \<lparr>events = [], seats = [], bookings = [], seat_bookings = [], booking_history = [],
      waitlist = [\<lparr>wl_id = 1, wl_user_id = 11, wl_event_id = 1, requested_quantity = 2,
                   wl_position = 1, wl_status = WL_NOTIFIED, wl_updated_at = 0\<rparr>,
                  \<lparr>wl_id = 2, wl_user_id = 12, wl_event_id = 1, requested_quantity = 1,
                   wl_position = 2, wl_status = WL_ACTIVE, wl_updated_at = 0\<rparr>]\<rparr>
   \<and> expire_waitlist_notifications
     \<lparr>booking_hold_timeout_minutes = 15, max_booking_quantity = 10,
      waitlist_notification_timeout_hours = 24\<rparr> 90000000000
     \<lparr>events = [], seats = [], bookings = [], seat_bookings = [], booking_history = [],
      waitlist = [\<lparr>wl_id = 1, wl_user_id = 11, wl_event_id = 1, requested_quantity = 2,
                   wl_position = 1, wl_status = WL_NOTIFIED, wl_updated_at = 0\<rparr>,
                  \<lparr>wl_id = 2, wl_user_id = 12, wl_event_id = 1, requested_quantity = 1,
                   wl_position = 2, wl_status = WL_ACTIVE, wl_updated_at = 0\<rparr>]\<rparr>
   = Inr \<lparr>events = [], seats = [], bookings = [], seat_bookings = [], booking_history = [],
      waitlist = [\<lparr>wl_id = 1, wl_user_id = 11, wl_event_id = 1, requested_quantity = 2,
                   wl_position = 3, wl_status = WL_ACTIVE, wl_updated_at = 90000000000\<rparr>,
                  \<lparr>wl_id = 2, wl_user_id = 12, wl_event_id = 1, requested_quantity = 1,
                   wl_position = 2, wl_status = WL_ACTIVE, wl_updated_at = 0\<rparr>]\<rparr>
   \<and> nonterminal_positions 1
     \<lparr>events = [], seats = [], bookings = [], seat_bookings = [], booking_history = [],
      waitlist = [\<lparr>wl_id = 1, wl_user_id = 11, wl_event_id = 1, requested_quantity = 2,
                   wl_position = 3, wl_status = WL_ACTIVE, wl_updated_at = 90000000000\<rparr>,
                  \<lparr>wl_id = 2, wl_user_id = 12, wl_event_id = 1, requested_quantity = 1,
                   wl_position = 2, wl_status = WL_ACTIVE, wl_updated_at = 0\<rparr>]\<rparr> = [2, 3]
   \<and> \<not> positions_contiguous 1
     \<lparr>events = [], seats = [], bookings = [], seat_bookings = [], booking_history = [],
      waitlist = [\<lparr>wl_id = 1, wl_user_id = 11, wl_event_id = 1, requested_quantity = 2,
                   wl_position = 3, wl_status = WL_ACTIVE, wl_updated_at = 90000000000\<rparr>,
                  \<lparr>wl_id = 2, wl_user_id = 12, wl_event_id = 1, requested_quantity = 1,
                   wl_position = 2, wl_status = WL_ACTIVE, wl_updated_at = 0\<rparr>]\<rparr>"
  by (simp add: waitlist_defs store_defs hours_def upto.simps)


text \<open>A second way to the same gap: the entry converted at the tail keeps position 2,
  and \<^verbatim>\<open>_get_next_waitlist_position\<close> counts it, so the next entry joins at 3.\<close>

lemma join_after_convert_leaves_gap:
  "convert_waitlist_to_booking 50 2
     \<lparr>events = [\<lparr>ev_id = 1, event_date = 5000, total_capacity = 10, available_capacity = 0,
                 ev_price = 5000, has_seat_selection = False, version = 9, ev_is_active = True\<rparr>],
      seats = [], bookings = [], seat_bookings = [], booking_history = [],
      waitlist = [\<lparr>wl_id = 1, wl_user_id = 11, wl_event_id = 1, requested_quantity = 2,
                   wl_position = 1, wl_status = WL_ACTIVE, wl_updated_at = 0\<rparr>,
                  \<lparr>wl_id = 2, wl_user_id = 12, wl_event_id = 1, requested_quantity = 1,
                   wl_position = 2, wl_status = WL_NOTIFIED, wl_updated_at = 0\<rparr>]\<rparr>
   = Inr (\<lparr>wl_id = 2, wl_user_id = 12, wl_event_id = 1, requested_quantity = 1,
           wl_position = 2, wl_status = WL_CONVERTED, wl_updated_at = 50\<rparr>,
     \<lparr>events = [\<lparr>ev_id = 1, event_date = 5000, total_capacity = 10, available_capacity = 0,
                 ev_price = 5000, has_seat_selection = False, version = 9, ev_is_active = True\<rparr>],
      seats = [], bookings = [], seat_bookings = [], booking_history = [],
      waitlist = [\<lparr>wl_id = 1, wl_user_id = 11, wl_event_id = 1, requested_quantity = 2,
                   wl_position = 1, wl_status = WL_ACTIVE, wl_updated_at = 0\<rparr>,
                  \<lparr>wl_id = 2, wl_user_id = 12, wl_event_id = 1, requested_quantity = 1,
                   wl_position = 2, wl_status = WL_CONVERTED, wl_updated_at = 50\<rparr>]\<rparr>)
   \<and> join_waitlist 60 3 13 1 1
     \<lparr>events = [\<lparr>ev_id = 1, event_date = 5000, total_capacity = 10, available_capacity = 0,
                 ev_price = 5000, has_seat_selection = False, version = 9, ev_is_active = True\<rparr>],
      seats = [], bookings = [], seat_bookings = [], booking_history = [],
      waitlist = [\<lparr>wl_id = 1, wl_user_id = 11, wl_event_id = 1, requested_quantity = 2,
                   wl_position = 1, wl_status = WL_ACTIVE, wl_updated_at = 0\<rparr>,
                  \<lparr>wl_id = 2, wl_user_id = 12, wl_event_id = 1, requested_quantity = 1,
                   wl_position = 2, wl_status = WL_CONVERTED, wl_updated_at = 50\<rparr>]\<rparr>
   = Inr (\<lparr>wl_id = 3, wl_user_id = 13, wl_event_id = 1, requested_quantity = 1,
           wl_position = 3, wl_status = WL_ACTIVE, wl_updated_at = 60\<rparr>,
     \<lparr>events = [\<lparr>ev_id = 1, event_date = 5000, total_capacity = 10, available_capacity = 0,
                 ev_price = 5000, has_seat_selection = False, version = 9, ev_is_active = True\<rparr>],
      seats = [], bookings = [], seat_bookings = [], booking_history = [],
      waitlist = [\<lparr>wl_id = 1, wl_user_id = 11, wl_event_id = 1, requested_quantity = 2,
                   wl_position = 1, wl_status = WL_ACTIVE, wl_updated_at = 0\<rparr>,
                  \<lparr>wl_id = 2, wl_user_id = 12, wl_event_id = 1, requested_quantity = 1,
                   wl_position = 2, wl_status = WL_CONVERTED, wl_updated_at = 50\<rparr>,
                  \<lparr>wl_id = 3, wl_user_id = 13, wl_event_id = 1, requested_quantity = 1,
                   wl_position = 3, wl_status = WL_ACTIVE, wl_updated_at = 60\<rparr>]\<rparr>)
   \<and> nonterminal_positions 1
     \<lparr>events = [\<lparr>ev_id = 1, event_date = 5000, total_capacity = 10, available_capacity = 0,
                 ev_price = 5000, has_seat_selection = False, version = 9, ev_is_active = True\<rparr>],
      seats = [], bookings = [], seat_bookings = [], booking_history = [],
      waitlist = [\<lparr>wl_id = 1, wl_user_id = 11, wl_event_id = 1, requested_quantity = 2,
                   wl_position = 1, wl_status = WL_ACTIVE, wl_updated_at = 0\<rparr>,
                  \<lparr>wl_id = 2, wl_user_id = 12, wl_event_id = 1, requested_quantity = 1,
                   wl_position = 2, wl_status = WL_CONVERTED, wl_updated_at = 50\<rparr>,
                  \<lparr>wl_id = 3, wl_user_id = 13, wl_event_id = 1, requested_quantity = 1,
                   wl_position = 3, wl_status = WL_ACTIVE, wl_updated_at = 60\<rparr>]\<rparr> = [1, 3]"
  by (simp add: waitlist_defs store_defs)

subsection \<open>Lemmas about the store\<close>

lemma unique_row_split:
  assumes "filter c xs = [x]"
  shows "\<exists>pre post. xs = pre @ x # post \<and> (\<forall>u\<in>set pre. \<not> c u) \<and> (\<forall>u\<in>set post. \<not> c u) \<and> c x"
proof -
  from assms obtain pre post where xs: "xs = pre @ x # post" and pre: "\<forall>u\<in>set pre. \<not> c u"
    and cx: "c x" and post: "[] = filter c post"
    by (auto simp: filter_eq_Cons_iff)
  from post have "\<forall>u\<in>set post. \<not> c u"
    by (metis filter_empty_conv)
  with xs pre cx show ?thesis by blast
qed

lemma sql_update_none: "\<forall>u\<in>set xs. \<not> c u \<Longrightarrow> sql_update c f xs = xs"
  by (induction xs) (simp_all add: sql_update_def)

lemma sql_update_append: "sql_update c f (xs @ ys) = sql_update c f xs @ sql_update c f ys"
  by (simp add: sql_update_def)

lemma sql_update_unique:
  assumes "\<forall>u\<in>set pre. \<not> c u" "\<forall>u\<in>set post. \<not> c u" "c x"
  shows "sql_update c f (pre @ x # post) = pre @ f x # post"
proof -
  have "sql_update c f (x # post) = f x # post"
    using assms(2,3) sql_update_none [of post c f] by (simp add: sql_update_def)
  then show ?thesis
    using assms(1) by (simp add: sql_update_append sql_update_none)
qed

text \<open>Apart from the exception it raises for want of capacity, the reservation is the
  compare-and-set of the specification: with the event's row unique and well-formed,
  the row is decremented and its version bumped exactly when the version read is the
  stored one and enough capacity is left, and is left alone otherwise.\<close>

lemma update_event_capacity_cas:
  assumes uniq: "filter (\<lambda>e. ev_id e = ev_id event) (events d) = [row]"
    and checks: "event_checks row" and nonneg: "0 \<le> qty"
  shows "update_event_capacity event qty d =
     (if version row = version event \<and> qty \<le> available_capacity row
      then Inr (d\<lparr>events := sql_update (\<lambda>r. ev_id r = ev_id event)
                     (\<lambda>r. r\<lparr>available_capacity := available_capacity r - qty,
                             version := version r + 1\<rparr>) (events d)\<rparr>)
      else if available_capacity row < qty then Inl TypeError else Inl ConcurrencyError)"
proof -
  let ?c = "\<lambda>r. ev_id r = ev_id event \<and> version r = version event \<and>
                 available_capacity r \<ge> qty"
  let ?f = "\<lambda>r. r\<lparr>available_capacity := available_capacity r - qty, version := version r + 1\<rparr>"
  from unique_row_split [OF uniq] obtain pre post where
    evs: "events d = pre @ row # post" and pre: "\<forall>u\<in>set pre. ev_id u \<noteq> ev_id event"
    and post: "\<forall>u\<in>set post. ev_id u \<noteq> ev_id event" and rid: "ev_id row = ev_id event"
    by blast
  have fpre: "filter ?c pre = []" and fpost: "filter ?c post = []"
    using pre post by (auto simp: filter_empty_conv)
  show ?thesis
  proof (cases "version row = version event \<and> qty \<le> available_capacity row")
    case True
    then have crow: "?c row" using rid by simp
    have matched: "filter ?c (events d) = [row]"
      using evs fpre fpost crow by simp
    have "event_checks (?f row)"
      using checks True nonneg by (simp add: event_checks_def)
    moreover have "sql_update ?c ?f (events d) = pre @ ?f row # post"
      unfolding evs using pre post crow by (intro sql_update_unique) auto
    moreover have "sql_update (\<lambda>r. ev_id r = ev_id event) ?f (events d) = pre @ ?f row # post"
      unfolding evs using pre post rid by (intro sql_update_unique) auto
    ultimately show ?thesis
      using True matched by (simp add: update_event_capacity_def rowcount_def update_events_def)
  next
    case False
    then have "\<not> ?c row" by auto
    then have "filter ?c (events d) = []"
      using evs fpre fpost by simp
    with False uniq show ?thesis
      by (auto simp: update_event_capacity_def rowcount_def and_then_def scalar_one_or_none_def)
  qed
qed

subsection \<open>Restoring capacity, as the code does it\<close>

text \<open>
  C2 (amended): releasing a booking without seats adds exactly its quantity to the
  available capacity of its event and bumps the version; there is no cap. When the
  sum would leave \<open>0 \<dots> total_capacity\<close> the table's check refuses the update, the
  operation fails and the row stays as it was. Either way every event row satisfies
  \<open>0 \<le> available_capacity \<le> total_capacity\<close> at commit.
\<close>

theorem release_capacity_amended:
  assumes "seat_bookings_of booking d = []" and "list_all event_checks (events d)"
  shows "case release_booking_capacity booking d of
           Inr d' \<Rightarrow>
             d' = d\<lparr>events := map (\<lambda>e. if ev_id e = bk_event_id booking
                                       then e\<lparr>available_capacity :=
                                                available_capacity e + quantity booking,
                                              version := version e + 1\<rparr>
                                       else e) (events d)\<rparr> \<and>
             list_all event_checks (events d')
         | Inl err \<Rightarrow>
             err = IntegrityError UPDATE_events \<and>
             list_ex (\<lambda>e. ev_id e = bk_event_id booking \<and>
                          (available_capacity e + quantity booking > total_capacity e \<or>
                           available_capacity e + quantity booking < 0)) (events d)"
proof -
  let ?c = "\<lambda>e. ev_id e = bk_event_id booking"
  let ?f = "\<lambda>e. e\<lparr>available_capacity := available_capacity e + quantity booking,
                  version := version e + 1\<rparr>"
  have rel: "release_booking_capacity booking d = update_events ?c ?f d"
    using assms(1) by (simp add: release_booking_capacity_def)
  show ?thesis
  proof (cases "list_all event_checks (map ?f (filter ?c (events d)))")
    case True
    then have "list_all event_checks (sql_update ?c ?f (events d))"
      using assms(2) by (auto simp: list_all_iff sql_update_def)
    with True rel show ?thesis
      by (simp add: update_events_def sql_update_def)
  next
    case False
    then obtain e where e: "e \<in> set (events d)" "?c e" "\<not> event_checks (?f e)"
      by (auto simp: list_all_iff)
    from assms(2) e(1) have "event_checks e" by (simp add: list_all_iff)
    with e(3) have "available_capacity e + quantity booking > total_capacity e \<or>
                    available_capacity e + quantity booking < 0"
      by (auto simp: event_checks_def)
    with e(1,2) have "list_ex (\<lambda>e. ev_id e = bk_event_id booking \<and>
                          (available_capacity e + quantity booking > total_capacity e \<or>
                           available_capacity e + quantity booking < 0)) (events d)"
      by (auto simp: list_ex_iff)
    with False rel show ?thesis by (simp add: update_events_def)
  qed
qed

theorem release_capacity_amended_witness:
  "seat_bookings_of \<lparr>bk_id = 7, bk_user_id = 3, bk_event_id = 1, quantity = 2,
       total_amount = 10000, bk_status = PENDING, expires_at = Some 900000000\<rparr> example_db1 = [] \<and>
   list_all event_checks (events example_db1) \<and>
   release_booking_capacity \<lparr>bk_id = 7, bk_user_id = 3, bk_event_id = 1, quantity = 2,
       total_amount = 10000, bk_status = PENDING, expires_at = Some 900000000\<rparr> example_db1
   = Inr (example_db1\<lparr>events :=
       [\<lparr>ev_id = 1, event_date = 5000, total_capacity = 10, available_capacity = 10,
         ev_price = 5000, has_seat_selection = True, version = 3, ev_is_active = True\<rparr>]\<rparr>)"
  using release_capacity_amended [of "\<lparr>bk_id = 7, bk_user_id = 3, bk_event_id = 1, quantity = 2,
       total_amount = 10000, bk_status = PENDING, expires_at = Some 900000000\<rparr>" example_db1]
  by (simp add: example_db1_def seat_bookings_of_def event_checks_def
      release_booking_capacity_def update_events_def sql_update_def)

subsection \<open>The capacity invariant under overlapping transactions\<close>

text \<open>Through its decorator, \<^verbatim>\<open>create_booking\<close> fails before its body runs, whatever
  the arguments.\<close>

lemma create_booking_always_type_error:
  "create_booking cfg now new_id user_id event_id qty seat_ids d = Inl TypeError"
  by (simp add: create_booking_def retry_on_concurrency_error_def)

text \<open>\<^verbatim>\<open>_reserve_specific_seats\<close>, the seat branch of that body, holds seats and
  leaves the events table as it is.\<close>

lemma reserve_specific_seats_keeps_events:
  "reserve_specific_seats booking seat_ids d = Inr d' \<Longrightarrow> events d' = events d"
  by (auto simp: reserve_specific_seats_def Let_def split: if_splits)

text \<open>A cancellation is its read, its validation and its writes.\<close>

lemma cancel_booking_read_write:
  "cancel_booking booking_id d =
     and_then (get_booking_with_relations booking_id d) (\<lambda>booking.
     and_then (validate_booking_cancellation booking) (\<lambda>_. cancel_booking_write booking d))"
  by (simp add: cancel_booking_def cancel_booking_write_def)


end
